theory Spec2Isabelle
  imports Complex_Main "HOL-Library.Word" "HOL-Library.AList"
begin

section \<open>Outcomes of a call\<close>

text \<open>
  A call of the bridge either returns, fails an \<^verbatim>\<open>assert\<close> (the process aborts; the
  asserts are compiled in, as in a debug build), or throws a catchable exception
  (\<^verbatim>\<open>JSAException\<close>, a script error).
\<close>

datatype error = AssertionFailed | JSError string | RangeError | SerializationError

text \<open>
  \<open>JSError\<close> is the exception js_type.h throws by itself (\<^verbatim>\<open>detail::throwJSError\<close>);
  \<open>RangeError\<close> and \<open>SerializationError\<close> are the two script errors the specification
  names for the index-out-of-range access and for the serialization of a cyclic
  structure. Every error but a failed assert can be caught.
\<close>

fun catchable :: "error \<Rightarrow> bool" where
  "catchable AssertionFailed = False"
| "catchable _ = True"

section \<open>Pointer: the base class of the handle wrappers (js_type.h, lines 17-38)\<close>

text \<open>
  \<^verbatim>\<open>JSContext::PointerValue *\<close> is the address of an engine-owned cell; \<^verbatim>\<open>nullptr\<close> is
  \<open>None\<close>. PropNameID, Symbol, String, Object, WeakObject, Array, ArrayBuffer,
  ArrayBufferView and Function add no field to \<^verbatim>\<open>Pointer\<close>. The members
  \<^verbatim>\<open>ptr_\<close>, \<^verbatim>\<open>kind_\<close> and \<^verbatim>\<open>data_\<close> of the source are the fields \<open>ptr\<close>, \<open>kind\<close> and
  \<open>data\<close> here (a name cannot end in an underscore).
\<close>

type_synonym PointerValue = nat

record Pointer =
  ptr :: "PointerValue option"

type_synonym PropNameID = Pointer
type_synonym Symbol = Pointer
type_synonym String = Pointer
type_synonym Object = Pointer
type_synonym WeakObject = Pointer
type_synonym Array = Pointer
type_synonym ArrayBuffer = Pointer
type_synonym ArrayBufferView = Pointer
type_synonym Function = Pointer

text \<open>\<^verbatim>\<open>explicit Pointer(JSContext::PointerValue *ptr) : ptr_(ptr) {}\<close>\<close>

definition Pointer_of :: "PointerValue option \<Rightarrow> Pointer" where
  "Pointer_of p = \<lparr>ptr = p\<rparr>"

section \<open>Value (js_type.h, lines 612-852)\<close>

datatype ValueKind =
  UndefinedKind | NullKind | BooleanKind | NumberKind | SymbolKind | StringKind | ObjectKind

text \<open>
  The numbering of the enum: \<^verbatim>\<open>PointerKind = SymbolKind\<close>, and the kinds from there on
  hold a pointer.
\<close>

fun kind_index :: "ValueKind \<Rightarrow> nat" where
  "kind_index UndefinedKind = 0"
| "kind_index NullKind = 1"
| "kind_index BooleanKind = 2"
| "kind_index NumberKind = 3"
| "kind_index SymbolKind = 4"
| "kind_index StringKind = 5"
| "kind_index ObjectKind = 6"

definition PointerKind :: ValueKind where
  "PointerKind = SymbolKind"

text \<open>
  A \<^verbatim>\<open>double\<close> is kept as the real number it denotes (no claim below depends on
  rounding, on NaN or on the infinities); an \<^verbatim>\<open>int\<close> is a 32-bit word read as signed (\<open>sint\<close>), and
  its conversion to \<^verbatim>\<open>double\<close> is exact.
\<close>

type_synonym double = real

text \<open>
  \<^verbatim>\<open>union Data\<close>: the value is the member that was written last. The default
  constructor \<^verbatim>\<open>Data()\<close> runs the default member initializer \<^verbatim>\<open>bool boolean{}\<close>,
  so a fresh \<^verbatim>\<open>Data\<close> is \<open>boolean False\<close>.
\<close>

datatype Data = boolean bool | number double | pointer Pointer

text \<open>
  Reading a member: the member written last gives its value; what a read through
  another member gives is not determined by the source (\<open>None\<close>). No read faults.
\<close>

fun Data_boolean :: "Data \<Rightarrow> bool option" where
  "Data_boolean (boolean b) = Some b"
| "Data_boolean _ = None"

fun Data_number :: "Data \<Rightarrow> double option" where
  "Data_number (number d) = Some d"
| "Data_number _ = None"

fun Data_pointer :: "Data \<Rightarrow> Pointer option" where
  "Data_pointer (pointer p) = Some p"
| "Data_pointer _ = None"

record Value =
  kind :: ValueKind
  data :: Data

text \<open>\<^verbatim>\<open>explicit Value(ValueKind kind) : kind_(kind) {}\<close>\<close>

definition Value_of_kind :: "ValueKind \<Rightarrow> Value" where
  "Value_of_kind k = \<lparr>kind = k, data = boolean False\<rparr>"

text \<open>\<^verbatim>\<open>Value() : Value(UndefinedKind) {}\<close>\<close>

definition Value_default :: Value where
  "Value_default = Value_of_kind UndefinedKind"

text \<open>\<^verbatim>\<open>explicit Value(std::nullptr_t) : kind_(NullKind) {}\<close>\<close>

definition Value_nullptr :: Value where
  "Value_nullptr = \<lparr>kind = NullKind, data = boolean False\<rparr>"

text \<open>\<^verbatim>\<open>explicit Value(bool b) : Value(BooleanKind) { data_.boolean = b; }\<close>\<close>

definition Value_bool :: "bool \<Rightarrow> Value" where
  "Value_bool b = (Value_of_kind BooleanKind)\<lparr>data := boolean b\<rparr>"

text \<open>\<^verbatim>\<open>explicit Value(double d) : Value(NumberKind) { data_.number = d; }\<close>\<close>

definition Value_double :: "double \<Rightarrow> Value" where
  "Value_double d = (Value_of_kind NumberKind)\<lparr>data := number d\<rparr>"

text \<open>\<^verbatim>\<open>explicit Value(int i) : Value(NumberKind) { data_.number = i; }\<close>\<close>

definition Value_int :: "32 word \<Rightarrow> Value" where
  "Value_int i = (Value_of_kind NumberKind)\<lparr>data := number (real_of_int (sint i))\<rparr>"

text \<open>\<^verbatim>\<open>static Value undefined()\<close> and \<^verbatim>\<open>static Value null()\<close>\<close>

definition Value_undefined :: Value where
  "Value_undefined = Value_default"

definition Value_null :: Value where
  "Value_null = Value_nullptr"

subsection \<open>The kind predicates (lines 700-726)\<close>

definition isUndefined :: "Value \<Rightarrow> bool" where
  "isUndefined v = (kind v = UndefinedKind)"

definition isNull :: "Value \<Rightarrow> bool" where
  "isNull v = (kind v = NullKind)"

definition isBool :: "Value \<Rightarrow> bool" where
  "isBool v = (kind v = BooleanKind)"

definition isNumber :: "Value \<Rightarrow> bool" where
  "isNumber v = (kind v = NumberKind)"

definition isString :: "Value \<Rightarrow> bool" where
  "isString v = (kind v = StringKind)"

definition isSymbol :: "Value \<Rightarrow> bool" where
  "isSymbol v = (kind v = SymbolKind)"

definition isObject :: "Value \<Rightarrow> bool" where
  "isObject v = (kind v = ObjectKind)"

text \<open>The seven predicates of a value, in the order of the enum.\<close>

definition kind_tests :: "Value \<Rightarrow> bool list" where
  "kind_tests v =
     [isUndefined v, isNull v, isBool v, isNumber v, isSymbol v, isString v, isObject v]"

subsection \<open>The unchecked scalar accessors (lines 728-737)\<close>

text \<open>
  \<^verbatim>\<open>bool getBool() const { return data_.boolean; }\<close>: the body has no assert.
\<close>

definition getBool :: "Value \<Rightarrow> error + bool option" where
  "getBool v = Inr (Data_boolean (data v))"

text \<open>
  \<^verbatim>\<open>double getNumber() const { assert(isNumber()); return data_.number; }\<close>
\<close>

definition getNumber :: "Value \<Rightarrow> error + double option" where
  "getNumber v = (if isNumber v then Inr (Data_number (data v)) else Inl AssertionFailed)"

section \<open>Calls that touch the engine\<close>

text \<open>
  The engine's state is threaded through every call that takes a \<^verbatim>\<open>JSContext &\<close>: a
  call maps the state before to its outcome and the state after.
\<close>

type_synonym ('a, 'c) action = "'c \<Rightarrow> (error + 'a) \<times> 'c"

definition returns :: "'a \<Rightarrow> ('a, 'c) action" where
  "returns x c = (Inr x, c)"

definition throws :: "error \<Rightarrow> ('a, 'c) action" where
  "throws e c = (Inl e, c)"

text \<open>Sequencing: a fault or an exception of the first call skips the second.\<close>

definition and_then :: "('a, 'c) action \<Rightarrow> ('a \<Rightarrow> ('b, 'c) action) \<Rightarrow> ('b, 'c) action" where
  "and_then m f c = (case m c of (Inl e, c') \<Rightarrow> (Inl e, c') | (Inr x, c') \<Rightarrow> f x c')"

text \<open>
  The destructor of a temporary runs at the end of the full expression, after a return
  and during the unwinding of an exception alike; after a failed assert the process
  is gone and nothing runs.
\<close>

definition cleanup :: "('a, 'c) action \<Rightarrow> ('c \<Rightarrow> 'c) \<Rightarrow> ('a, 'c) action" where
  "cleanup m d c =
     (case m c of
        (Inl AssertionFailed, c') \<Rightarrow> (Inl AssertionFailed, c')
      | (r, c') \<Rightarrow> (r, d c'))"

section \<open>Native payloads of host objects\<close>

text \<open>
  A native class is \<^verbatim>\<open>HostObject\<close> or derives from a native class; the chain of bases of
  a class ends at \<^verbatim>\<open>HostObject\<close>. \<open>derives_from d t\<close>: an object of dynamic type \<open>d\<close> is a
  \<open>t\<close>, which is when \<^verbatim>\<open>dynamic_pointer_cast<t>\<close> gives a non-null pointer.
\<close>

datatype native_type = HostObjectT | Derived string native_type

fun derives_from :: "native_type \<Rightarrow> native_type \<Rightarrow> bool" where
  "derives_from HostObjectT t = (t = HostObjectT)"
| "derives_from (Derived n b) t = (t = Derived n b \<or> derives_from b t)"

record HostObject =
  address :: nat
  dynamic_type :: native_type

text \<open>A \<^verbatim>\<open>std::shared_ptr<HostObject>\<close>; the empty pointer is \<open>None\<close>.\<close>

type_synonym shared_ptr = "HostObject option"

definition dynamic_pointer_cast :: "native_type \<Rightarrow> shared_ptr \<Rightarrow> shared_ptr" where
  "dynamic_pointer_cast t sp =
     (case sp of
        None \<Rightarrow> None
      | Some h \<Rightarrow> if derives_from (dynamic_type h) t then Some h else None)"

text \<open>\<^verbatim>\<open>static_pointer_cast\<close> checks nothing.\<close>

definition static_pointer_cast :: "native_type \<Rightarrow> shared_ptr \<Rightarrow> shared_ptr" where
  "static_pointer_cast t sp = sp"

section \<open>The engine adapter\<close>

text \<open>
  \<^verbatim>\<open>JSContext\<close> and \<^verbatim>\<open>JSContext::PointerValue\<close> are abstract: every engine supplies its own
  primitives (js_context.h declares them). The embedding takes them as a record of
  functions over the engine's state \<open>'c\<close>, one field for each primitive that js_type.h
  calls in the functions below. The \<^verbatim>\<open>const\<close> queries read the state; \<^verbatim>\<open>invalidate\<close>
  is called from a destructor and cannot throw. A \<^verbatim>\<open>size_t\<close> is a natural number, and
  \<^verbatim>\<open>(const Value *args, size_t count)\<close> is the list of the arguments.
\<close>

record 'c JSContext =
  ctx_invalidate :: "PointerValue \<Rightarrow> 'c \<Rightarrow> 'c"
  ctx_createStringFromAscii :: "string \<Rightarrow> (String, 'c) action"
  ctx_cloneSymbol :: "PointerValue option \<Rightarrow> (PointerValue option, 'c) action"
  ctx_cloneString :: "PointerValue option \<Rightarrow> (PointerValue option, 'c) action"
  ctx_cloneObject :: "PointerValue option \<Rightarrow> (PointerValue option, 'c) action"
  ctx_getProperty :: "Object \<Rightarrow> String \<Rightarrow> (Value, 'c) action"
  ctx_hasProperty :: "Object \<Rightarrow> String \<Rightarrow> (bool, 'c) action"
  ctx_removeProperty :: "Object \<Rightarrow> String \<Rightarrow> (unit, 'c) action"
  ctx_setPropertyValue :: "Object \<Rightarrow> String \<Rightarrow> Value \<Rightarrow> (unit, 'c) action"
  ctx_isArray :: "Object \<Rightarrow> 'c \<Rightarrow> bool"
  ctx_isArrayBuffer :: "Object \<Rightarrow> 'c \<Rightarrow> bool"
  ctx_isArrayBufferView :: "Object \<Rightarrow> 'c \<Rightarrow> bool"
  ctx_isFunction :: "Object \<Rightarrow> 'c \<Rightarrow> bool"
  ctx_isHostObject :: "Object \<Rightarrow> 'c \<Rightarrow> bool"
  ctx_getHostObject :: "Object \<Rightarrow> 'c \<Rightarrow> shared_ptr"
  ctx_size :: "Array \<Rightarrow> 'c \<Rightarrow> nat"
  ctx_getValueAtIndex :: "Array \<Rightarrow> nat \<Rightarrow> (Value, 'c) action"
  ctx_setValueAtIndexImpl :: "Array \<Rightarrow> nat \<Rightarrow> Value \<Rightarrow> (unit, 'c) action"
  ctx_call :: "Function \<Rightarrow> Value \<Rightarrow> Value list \<Rightarrow> (Value, 'c) action"
  ctx_callAsConstructor :: "Function \<Rightarrow> Value list \<Rightarrow> (Value, 'c) action"

section \<open>Construction, move and destruction of a Pointer (lines 19-34)\<close>

text \<open>
  \<^verbatim>\<open>Pointer(Pointer &&other) noexcept : ptr_(other.ptr_) { other.ptr_ = nullptr; }\<close>
  The result is the new wrapper and the source as the constructor leaves it. The
  defaulted move constructors of the derived classes call this one.
\<close>

definition Pointer_move :: "Pointer \<Rightarrow> Pointer \<times> Pointer" where
  "Pointer_move other = (\<lparr>ptr = ptr other\<rparr>, other\<lparr>ptr := None\<rparr>)"

text \<open>\<^verbatim>\<open>~Pointer() { if (ptr_) { ptr_->invalidate(); } }\<close>\<close>

definition Pointer_destroy :: "'c JSContext \<Rightarrow> Pointer \<Rightarrow> 'c \<Rightarrow> 'c" where
  "Pointer_destroy ad p c = (case ptr p of None \<Rightarrow> c | Some h \<Rightarrow> ctx_invalidate ad h c)"

text \<open>
  Modelled from the spec: \<^verbatim>\<open>Pointer &operator=(Pointer &&other) noexcept\<close> is declared
  at line 29 and its body is not among the sources. The specification (4.1, 3): the
  wrapper is move-assignable, the move leaves the source in a "no handle" state and
  transfers the ownership to the destination, and a handle is released exactly once;
  so the handle that the destination held before is released, the destination takes
  the handle of the source, and the source holds none. The destination and the
  source are two wrappers. The result is the destination, the source and the state.
\<close>

definition Pointer_move_assign ::
    "'c JSContext \<Rightarrow> Pointer \<Rightarrow> Pointer \<Rightarrow> 'c \<Rightarrow> Pointer \<times> Pointer \<times> 'c" where
  "Pointer_move_assign ad this other c =
     (this\<lparr>ptr := ptr other\<rparr>, other\<lparr>ptr := None\<rparr>, Pointer_destroy ad this c)"

section \<open>Values that hold a pointer\<close>

text \<open>
  \<^verbatim>\<open>template <typename T> explicit Value(T &&other) : Value(kindOf(other))\<close> with
  \<^verbatim>\<open>new (&data_.pointer) T(std::forward<T>(other));\<close> The kind \<open>k\<close> is \<open>kindOf(other)\<close>:
  \<open>SymbolKind\<close>, \<open>StringKind\<close> or \<open>ObjectKind\<close> by the static type of \<open>other\<close>. The result
  is the value and the source as the move leaves it.
\<close>

definition Value_from_rvalue :: "ValueKind \<Rightarrow> Pointer \<Rightarrow> Value \<times> Pointer" where
  "Value_from_rvalue k other =
     (case Pointer_move other of
        (p, other') \<Rightarrow> ((Value_of_kind k)\<lparr>data := pointer p\<rparr>, other'))"

text \<open>
  \<^verbatim>\<open>Value(JSContext &context, const Symbol &sym)\<close>, \<^verbatim>\<open>(..., const String &str)\<close> and
  \<^verbatim>\<open>(..., const Object &obj)\<close> (lines 653-665): the value holds a clone of the handle.
\<close>

definition Value_of_Symbol :: "'c JSContext \<Rightarrow> Symbol \<Rightarrow> (Value, 'c) action" where
  "Value_of_Symbol ad s =
     and_then (ctx_cloneSymbol ad (ptr s))
       (\<lambda>q. returns ((Value_of_kind SymbolKind)\<lparr>data := pointer (Pointer_of q)\<rparr>))"

definition Value_of_String :: "'c JSContext \<Rightarrow> String \<Rightarrow> (Value, 'c) action" where
  "Value_of_String ad str =
     and_then (ctx_cloneString ad (ptr str))
       (\<lambda>q. returns ((Value_of_kind StringKind)\<lparr>data := pointer (Pointer_of q)\<rparr>))"

definition Value_of_Object :: "'c JSContext \<Rightarrow> Object \<Rightarrow> (Value, 'c) action" where
  "Value_of_Object ad obj =
     and_then (ctx_cloneObject ad (ptr obj))
       (\<lambda>q. returns ((Value_of_kind ObjectKind)\<lparr>data := pointer (Pointer_of q)\<rparr>))"

text \<open>
  Modelled from the spec: \<^verbatim>\<open>~Value()\<close> is declared at line 676 and its body is not
  among the sources. The specification (3): on destruction, a value that holds a
  handle invalidates it exactly once; a scalar holds none.
\<close>

definition Value_destroy :: "'c JSContext \<Rightarrow> Value \<Rightarrow> 'c \<Rightarrow> 'c" where
  "Value_destroy ad v c =
     (if kind_index PointerKind \<le> kind_index (kind v)
      then (case data v of pointer p \<Rightarrow> Pointer_destroy ad p c | _ \<Rightarrow> c)
      else c)"

text \<open>
  Modelled from the spec: \<^verbatim>\<open>Value(JSContext &context, const Value &value)\<close> is declared
  at line 668 and its body is not among the sources. The specification (4.2): given a
  context, a value is constructed from another by clone, an independent reference to
  the same entity; a scalar is copied.
\<close>

definition Value_copy :: "'c JSContext \<Rightarrow> Value \<Rightarrow> (Value, 'c) action" where
  "Value_copy ad v =
     (case data v of
        pointer p \<Rightarrow>
          (if kind v = SymbolKind then Value_of_Symbol ad p
           else if kind v = StringKind then Value_of_String ad p
           else if kind v = ObjectKind then Value_of_Object ad p
           else returns v)
      | _ \<Rightarrow> returns v)"

section \<open>Strings and conversions (lines 139-154 and 856-886)\<close>

text \<open>
  A \<^verbatim>\<open>const char *\<close> names the characters up to the first NUL (\<^verbatim>\<open>strlen\<close>); a
  \<^verbatim>\<open>std::string\<close> passes all of its characters (\<^verbatim>\<open>str.c_str(), str.size()\<close>). The
  primitive gets the characters it is to copy.
\<close>

definition c_str :: "string \<Rightarrow> string" where
  "c_str s = takeWhile (\<lambda>ch. ch \<noteq> CHR 0x00) s"

definition String_createFromAscii_cstr :: "'c JSContext \<Rightarrow> string \<Rightarrow> (String, 'c) action" where
  "String_createFromAscii_cstr ad str = ctx_createStringFromAscii ad (c_str str)"

definition String_createFromAscii_string :: "'c JSContext \<Rightarrow> string \<Rightarrow> (String, 'c) action" where
  "String_createFromAscii_string ad str = ctx_createStringFromAscii ad str"

text \<open>
  The arguments \<^verbatim>\<open>detail::toValue\<close> is overloaded for. A \<^verbatim>\<open>float\<close> is kept as the real
  number it denotes, like a \<^verbatim>\<open>double\<close>.
\<close>

datatype convertible =
    from_nullptr
  | from_bool bool
  | from_double double
  | from_float double
  | from_int "32 word"
  | from_cstr string
  | from_std_string string
  | from_Symbol Symbol
  | from_String String
  | from_Object Object
  | from_Value_ref Value
  | from_Value_rvalue Value

text \<open>
  \<^verbatim>\<open>(Value)String::createFromAscii(context, str)\<close> moves the temporary string into the
  value; the temporary, which the move has emptied, is destroyed afterwards.
\<close>

definition Value_of_temporary_String :: "'c JSContext \<Rightarrow> (String, 'c) action \<Rightarrow> (Value, 'c) action" where
  "Value_of_temporary_String ad create =
     and_then create
       (\<lambda>str. case Value_from_rvalue StringKind str of
                 (v, str') \<Rightarrow> cleanup (returns v) (Pointer_destroy ad str'))"

fun toValue :: "'c JSContext \<Rightarrow> convertible \<Rightarrow> (Value, 'c) action" where
  "toValue ad from_nullptr = returns Value_null"
| "toValue ad (from_bool b) = returns (Value_bool b)"
| "toValue ad (from_double d) = returns (Value_double d)"
| "toValue ad (from_float f) = returns (Value_double f)"
| "toValue ad (from_int i) = returns (Value_int i)"
| "toValue ad (from_cstr str) =
     Value_of_temporary_String ad (String_createFromAscii_cstr ad str)"
| "toValue ad (from_std_string str) =
     Value_of_temporary_String ad (String_createFromAscii_string ad str)"
| "toValue ad (from_Symbol other) = Value_of_Symbol ad other"
| "toValue ad (from_String other) = Value_of_String ad other"
| "toValue ad (from_Object other) = Value_of_Object ad other"
| "toValue ad (from_Value_ref v) = Value_copy ad v"
| "toValue ad (from_Value_rvalue v) = returns v"

text \<open>
  \<^verbatim>\<open>toValue(JSContext &, Value &&value)\<close> returns the reference it was given; every other
  overload returns a temporary, which is destroyed once the call it is an argument of
  is over.
\<close>

fun toValue_temporary :: "convertible \<Rightarrow> bool" where
  "toValue_temporary (from_Value_rvalue v) = False"
| "toValue_temporary _ = True"

definition with_converted ::
    "'c JSContext \<Rightarrow> convertible \<Rightarrow> (Value \<Rightarrow> ('a, 'c) action) \<Rightarrow> ('a, 'c) action" where
  "with_converted ad a f =
     and_then (toValue ad a)
       (\<lambda>v. if toValue_temporary a then cleanup (f v) (Value_destroy ad v) else f v)"

section \<open>Object: property access (lines 902-948)\<close>

definition Object_getProperty_String :: "'c JSContext \<Rightarrow> Object \<Rightarrow> String \<Rightarrow> (Value, 'c) action" where
  "Object_getProperty_String ad this name = ctx_getProperty ad this name"

definition Object_getProperty_cstr :: "'c JSContext \<Rightarrow> Object \<Rightarrow> string \<Rightarrow> (Value, 'c) action" where
  "Object_getProperty_cstr ad this name =
     and_then (String_createFromAscii_cstr ad name)
       (\<lambda>key. cleanup (Object_getProperty_String ad this key) (Pointer_destroy ad key))"

definition Object_removeProperty_cstr :: "'c JSContext \<Rightarrow> Object \<Rightarrow> string \<Rightarrow> (unit, 'c) action" where
  "Object_removeProperty_cstr ad this name =
     and_then (String_createFromAscii_cstr ad name)
       (\<lambda>key. cleanup (ctx_removeProperty ad this key) (Pointer_destroy ad key))"

definition Object_removeProperty_String :: "'c JSContext \<Rightarrow> Object \<Rightarrow> String \<Rightarrow> (unit, 'c) action" where
  "Object_removeProperty_String ad this name = ctx_removeProperty ad this name"

definition Object_hasProperty_String :: "'c JSContext \<Rightarrow> Object \<Rightarrow> String \<Rightarrow> (bool, 'c) action" where
  "Object_hasProperty_String ad this name = ctx_hasProperty ad this name"

definition Object_hasProperty_cstr :: "'c JSContext \<Rightarrow> Object \<Rightarrow> string \<Rightarrow> (bool, 'c) action" where
  "Object_hasProperty_cstr ad this name =
     and_then (String_createFromAscii_cstr ad name)
       (\<lambda>key. cleanup (Object_hasProperty_String ad this key) (Pointer_destroy ad key))"

text \<open>\<^verbatim>\<open>Object::setPropertyValue(JSContext &, const String &, const Value &)\<close> (line 365)\<close>

definition Object_setPropertyValue ::
    "'c JSContext \<Rightarrow> Object \<Rightarrow> String \<Rightarrow> Value \<Rightarrow> (unit, 'c) action" where
  "Object_setPropertyValue ad this name v = ctx_setPropertyValue ad this name v"

definition Object_setProperty_String ::
    "'c JSContext \<Rightarrow> Object \<Rightarrow> String \<Rightarrow> convertible \<Rightarrow> (unit, 'c) action" where
  "Object_setProperty_String ad this name a =
     with_converted ad a (Object_setPropertyValue ad this name)"

definition Object_setProperty_cstr ::
    "'c JSContext \<Rightarrow> Object \<Rightarrow> string \<Rightarrow> convertible \<Rightarrow> (unit, 'c) action" where
  "Object_setProperty_cstr ad this name a =
     and_then (String_createFromAscii_cstr ad name)
       (\<lambda>key. cleanup (Object_setProperty_String ad this key a) (Pointer_destroy ad key))"

section \<open>Object: the unchecked casts (lines 950-1000)\<close>

text \<open>
  The \<^verbatim>\<open>const &\<close> overloads return a wrapper of a clone of the handle. The \<^verbatim>\<open>&&\<close>
  overloads take the handle out of the object: they return the wrapper and the
  object as they leave it.
\<close>

definition cast_clone :: "'c JSContext \<Rightarrow> Object \<Rightarrow> (Object, 'c) action" where
  "cast_clone ad this = and_then (ctx_cloneObject ad (ptr this)) (\<lambda>q. returns (Pointer_of q))"

definition cast_take :: "Object \<Rightarrow> (Object \<times> Object, 'c) action" where
  "cast_take this = returns (Pointer_of (ptr this), this\<lparr>ptr := None\<rparr>)"

definition Object_getArray :: "'c JSContext \<Rightarrow> Object \<Rightarrow> (Array, 'c) action" where
  "Object_getArray ad this c =
     (if ctx_isArray ad this c then cast_clone ad this c else throws AssertionFailed c)"

definition Object_getArray_rvalue :: "'c JSContext \<Rightarrow> Object \<Rightarrow> (Array \<times> Object, 'c) action" where
  "Object_getArray_rvalue ad this c =
     (if ctx_isArray ad this c then cast_take this c else throws AssertionFailed c)"

definition Object_getArrayBuffer :: "'c JSContext \<Rightarrow> Object \<Rightarrow> (ArrayBuffer, 'c) action" where
  "Object_getArrayBuffer ad this c =
     (if ctx_isArrayBuffer ad this c then cast_clone ad this c else throws AssertionFailed c)"

definition Object_getArrayBuffer_rvalue ::
    "'c JSContext \<Rightarrow> Object \<Rightarrow> (ArrayBuffer \<times> Object, 'c) action" where
  "Object_getArrayBuffer_rvalue ad this c =
     (if ctx_isArrayBuffer ad this c then cast_take this c else throws AssertionFailed c)"

definition Object_getArrayBufferView :: "'c JSContext \<Rightarrow> Object \<Rightarrow> (ArrayBufferView, 'c) action" where
  "Object_getArrayBufferView ad this c =
     (if ctx_isArrayBufferView ad this c then cast_clone ad this c else throws AssertionFailed c)"

text \<open>
  Lines 983-987: the body of the \<^verbatim>\<open>&&\<close> overload of \<^verbatim>\<open>getArrayBufferView\<close> has no
  assert and does not consult the context.
\<close>

definition Object_getArrayBufferView_rvalue ::
    "'c JSContext \<Rightarrow> Object \<Rightarrow> (ArrayBufferView \<times> Object, 'c) action" where
  "Object_getArrayBufferView_rvalue ad this c = cast_take this c"

definition Object_getFunction :: "'c JSContext \<Rightarrow> Object \<Rightarrow> (Function, 'c) action" where
  "Object_getFunction ad this c =
     (if ctx_isFunction ad this c then cast_clone ad this c else throws AssertionFailed c)"

definition Object_getFunction_rvalue :: "'c JSContext \<Rightarrow> Object \<Rightarrow> (Function \<times> Object, 'c) action" where
  "Object_getFunction_rvalue ad this c =
     (if ctx_isFunction ad this c then cast_take this c else throws AssertionFailed c)"

section \<open>Object: host objects (lines 1002-1025)\<close>

text \<open>
  The template argument \<open>T\<close> is the first argument after the adapter. The
  specialisation of \<^verbatim>\<open>isHostObject\<close> for \<open>T = HostObject\<close> asks the context only.
\<close>

definition Object_isHostObject :: "'c JSContext \<Rightarrow> native_type \<Rightarrow> Object \<Rightarrow> 'c \<Rightarrow> bool" where
  "Object_isHostObject ad T this c =
     (if T = HostObjectT then ctx_isHostObject ad this c
      else ctx_isHostObject ad this c
           \<and> dynamic_pointer_cast T (ctx_getHostObject ad this c) \<noteq> None)"

text \<open>
  \<^verbatim>\<open>getHostObject<T>\<close>; the specialisation for \<open>T = HostObject\<close> asserts
  \<^verbatim>\<open>context.isHostObject(*this)\<close> and returns the payload uncast.
\<close>

definition Object_getHostObject ::
    "'c JSContext \<Rightarrow> native_type \<Rightarrow> Object \<Rightarrow> (shared_ptr, 'c) action" where
  "Object_getHostObject ad T this c =
     (if T = HostObjectT then
        (if ctx_isHostObject ad this c then returns (ctx_getHostObject ad this c) c
         else throws AssertionFailed c)
      else
        (if Object_isHostObject ad T this c
         then returns (static_pointer_cast T (ctx_getHostObject ad this c)) c
         else throws AssertionFailed c))"

text \<open>
  Modelled from the spec: \<^verbatim>\<open>void detail::throwJSError(JSContext &, const char *msg)\<close> is
  declared at line 898 and its body is not among the sources. The specification (7):
  a catchable script error with a message is raised; control does not come back.
\<close>

definition throwJSError :: "string \<Rightarrow> ('a, 'c) action" where
  "throwJSError msg = throws (JSError msg)"

definition Object_asHostObject ::
    "'c JSContext \<Rightarrow> native_type \<Rightarrow> Object \<Rightarrow> (shared_ptr, 'c) action" where
  "Object_asHostObject ad T this c =
     (if \<not> Object_isHostObject ad T this c
      then throwJSError ''Object is not a HostObject of desired type'' c
      else returns (static_pointer_cast T (ctx_getHostObject ad this c)) c)"

section \<open>Array (lines 411-446 and 1035-1041)\<close>

definition Array_size :: "'c JSContext \<Rightarrow> Array \<Rightarrow> 'c \<Rightarrow> nat" where
  "Array_size ad this c = ctx_size ad this c"

definition Array_length :: "'c JSContext \<Rightarrow> Array \<Rightarrow> 'c \<Rightarrow> nat" where
  "Array_length ad this c = Array_size ad this c"

definition Array_getValueAtIndex :: "'c JSContext \<Rightarrow> Array \<Rightarrow> nat \<Rightarrow> (Value, 'c) action" where
  "Array_getValueAtIndex ad this i = ctx_getValueAtIndex ad this i"

definition Array_setValueAtIndexImpl ::
    "'c JSContext \<Rightarrow> Array \<Rightarrow> nat \<Rightarrow> Value \<Rightarrow> (unit, 'c) action" where
  "Array_setValueAtIndexImpl ad this i v = ctx_setValueAtIndexImpl ad this i v"

definition Array_setValueAtIndex ::
    "'c JSContext \<Rightarrow> Array \<Rightarrow> nat \<Rightarrow> convertible \<Rightarrow> (unit, 'c) action" where
  "Array_setValueAtIndex ad this i a =
     with_converted ad a (Array_setValueAtIndexImpl ad this i)"

section \<open>Function (lines 1053-1073 and 1101-1107)\<close>

text \<open>
  \<^verbatim>\<open>return context.call(*this, Value::undefined(), args, count);\<close> The temporary
  \<^verbatim>\<open>this\<close> value is destroyed after the call.
\<close>

definition Function_call :: "'c JSContext \<Rightarrow> Function \<Rightarrow> Value list \<Rightarrow> (Value, 'c) action" where
  "Function_call ad this args =
     cleanup (ctx_call ad this Value_undefined args) (Value_destroy ad Value_undefined)"

text \<open>\<^verbatim>\<open>return context.call(*this, Value(context, jsThis), args, count);\<close>\<close>

definition Function_callWithThis ::
    "'c JSContext \<Rightarrow> Function \<Rightarrow> Object \<Rightarrow> Value list \<Rightarrow> (Value, 'c) action" where
  "Function_callWithThis ad this jsThis args =
     and_then (Value_of_Object ad jsThis)
       (\<lambda>thisValue. cleanup (ctx_call ad this thisValue args) (Value_destroy ad thisValue))"

text \<open>\<^verbatim>\<open>return context.callAsConstructor(*this, args, count);\<close>\<close>

definition Function_callAsConstructor ::
    "'c JSContext \<Rightarrow> Function \<Rightarrow> Value list \<Rightarrow> (Value, 'c) action" where
  "Function_callAsConstructor ad this args = ctx_callAsConstructor ad this args"

text \<open>The \<^verbatim>\<open>std::initializer_list<Value>\<close> overloads pass \<^verbatim>\<open>args.begin(), args.size()\<close> on.\<close>

definition Function_call_list :: "'c JSContext \<Rightarrow> Function \<Rightarrow> Value list \<Rightarrow> (Value, 'c) action" where
  "Function_call_list ad this args = Function_call ad this args"

definition Function_callWithThis_list ::
    "'c JSContext \<Rightarrow> Function \<Rightarrow> Object \<Rightarrow> Value list \<Rightarrow> (Value, 'c) action" where
  "Function_callWithThis_list ad this jsThis args = Function_callWithThis ad this jsThis args"

definition Function_callAsConstructor_list ::
    "'c JSContext \<Rightarrow> Function \<Rightarrow> Value list \<Rightarrow> (Value, 'c) action" where
  "Function_callAsConstructor_list ad this args = Function_callAsConstructor ad this args"

section \<open>An engine with arrays and objects\<close>

text \<open>
  The engines themselves (the implementations of \<^verbatim>\<open>JSContext\<close>) are not among the
  sources. This engine keeps what the specification says of one: the entities behind
  the handles (strings, symbols, objects with their properties in order, arrays with
  their elements), the native payloads of the host objects, and a log of the
  invalidations and of the calls it was asked for.
\<close>

datatype cell =
    StringCell string
  | SymbolCell string
  | ObjectCell "(string \<times> Value) list"
  | ArrayCell "Value list"

datatype event =
    Invalidated PointerValue
  | Called "PointerValue option" Value "Value list"
  | Constructed "PointerValue option" "Value list"

record engine =
  cells :: "(PointerValue \<times> cell) list"
  hosts :: "(PointerValue \<times> HostObject) list"
  events :: "event list"

definition cell_at :: "engine \<Rightarrow> PointerValue option \<Rightarrow> cell option" where
  "cell_at e p = (case p of None \<Rightarrow> None | Some a \<Rightarrow> map_of (cells e) a)"

definition store_cell :: "PointerValue option \<Rightarrow> cell \<Rightarrow> engine \<Rightarrow> engine" where
  "store_cell p x e =
     (case p of None \<Rightarrow> e | Some a \<Rightarrow> e\<lparr>cells := AList.update a x (cells e)\<rparr>)"

definition elements :: "engine \<Rightarrow> Array \<Rightarrow> Value list" where
  "elements e arr = (case cell_at e (ptr arr) of Some (ArrayCell xs) \<Rightarrow> xs | _ \<Rightarrow> [])"

text \<open>
  Modelled from the spec: \<^verbatim>\<open>JSContext::size\<close>, \<^verbatim>\<open>JSContext::getValueAtIndex\<close> and
  \<^verbatim>\<open>JSContext::setValueAtIndexImpl\<close> are the adapter's; js_type.h only calls them. The
  specification (4.3, 8): the length is read from the array at the time of the call,
  and an index outside \<open>[0, length)\<close> raises a range error.
\<close>

definition engine_size :: "Array \<Rightarrow> engine \<Rightarrow> nat" where
  "engine_size arr e = length (elements e arr)"

definition engine_getValueAtIndex :: "Array \<Rightarrow> nat \<Rightarrow> (Value, engine) action" where
  "engine_getValueAtIndex arr i e =
     (if i < engine_size arr e then returns (elements e arr ! i) e else throws RangeError e)"

definition engine_setValueAtIndexImpl :: "Array \<Rightarrow> nat \<Rightarrow> Value \<Rightarrow> (unit, engine) action" where
  "engine_setValueAtIndexImpl arr i v e =
     (if i < engine_size arr e
      then returns () (store_cell (ptr arr) (ArrayCell ((elements e arr)[i := v])) e)
      else throws RangeError e)"

text \<open>Any adapter over this engine, with the three array primitives above.\<close>

definition with_spec_arrays :: "engine JSContext \<Rightarrow> engine JSContext" where
  "with_spec_arrays ad =
     ad\<lparr>ctx_size := engine_size,
        ctx_getValueAtIndex := engine_getValueAtIndex,
        ctx_setValueAtIndexImpl := engine_setValueAtIndexImpl\<rparr>"

text \<open>
  The other primitives of a small adapter over this engine, for evaluating the
  functions of js_type.h at concrete inputs: a new string gets a fresh address, a clone
  is a second reference to the same cell, a property that is not there reads as
  \<^verbatim>\<open>undefined\<close>, and an invalidation or a call is logged.
\<close>

definition fresh :: "engine \<Rightarrow> PointerValue" where
  "fresh e = Suc (fold max (map fst (cells e)) 0)"

definition text_of :: "engine \<Rightarrow> String \<Rightarrow> string" where
  "text_of e name = (case cell_at e (ptr name) of Some (StringCell s) \<Rightarrow> s | _ \<Rightarrow> [])"

definition properties :: "engine \<Rightarrow> Object \<Rightarrow> (string \<times> Value) list" where
  "properties e obj = (case cell_at e (ptr obj) of Some (ObjectCell ps) \<Rightarrow> ps | _ \<Rightarrow> [])"

definition host_at :: "engine \<Rightarrow> Object \<Rightarrow> shared_ptr" where
  "host_at e obj = (case ptr obj of None \<Rightarrow> None | Some a \<Rightarrow> map_of (hosts e) a)"

definition record_event :: "event \<Rightarrow> engine \<Rightarrow> engine" where
  "record_event ev e = e\<lparr>events := events e @ [ev]\<rparr>"

definition engine_adapter :: "engine JSContext" where
  "engine_adapter =
     \<lparr>ctx_invalidate = (\<lambda>h. record_event (Invalidated h)),
      ctx_createStringFromAscii =
        (\<lambda>s e. returns (Pointer_of (Some (fresh e)))
                  (e\<lparr>cells := (fresh e, StringCell s) # cells e\<rparr>)),
      ctx_cloneSymbol = returns,
      ctx_cloneString = returns,
      ctx_cloneObject = returns,
      ctx_getProperty =
        (\<lambda>obj name e.
           returns (case map_of (properties e obj) (text_of e name) of
                      None \<Rightarrow> Value_undefined | Some v \<Rightarrow> v) e),
      ctx_hasProperty =
        (\<lambda>obj name e. returns (map_of (properties e obj) (text_of e name) \<noteq> None) e),
      ctx_removeProperty =
        (\<lambda>obj name e.
           returns ()
             (case cell_at e (ptr obj) of
                Some (ObjectCell ps) \<Rightarrow>
                  store_cell (ptr obj) (ObjectCell (AList.delete (text_of e name) ps)) e
              | _ \<Rightarrow> e)),
      ctx_setPropertyValue =
        (\<lambda>obj name v e.
           returns ()
             (case cell_at e (ptr obj) of
                Some (ObjectCell ps) \<Rightarrow>
                  store_cell (ptr obj) (ObjectCell (AList.update (text_of e name) v ps)) e
              | _ \<Rightarrow> e)),
      ctx_isArray =
        (\<lambda>obj e. case cell_at e (ptr obj) of Some (ArrayCell xs) \<Rightarrow> True | _ \<Rightarrow> False),
      ctx_isArrayBuffer = (\<lambda>obj e. False),
      ctx_isArrayBufferView = (\<lambda>obj e. False),
      ctx_isFunction = (\<lambda>obj e. False),
      ctx_isHostObject = (\<lambda>obj e. host_at e obj \<noteq> None),
      ctx_getHostObject = (\<lambda>obj e. host_at e obj),
      ctx_size = engine_size,
      ctx_getValueAtIndex = engine_getValueAtIndex,
      ctx_setValueAtIndexImpl = engine_setValueAtIndexImpl,
      ctx_call =
        (\<lambda>f thisValue args e.
           returns Value_undefined (record_event (Called (ptr f) thisValue args) e)),
      ctx_callAsConstructor =
        (\<lambda>f args e. returns Value_undefined (record_event (Constructed (ptr f) args) e))\<rparr>"

text \<open>
  An engine state: two objects, the first backed by a native text node, and an array
  of two elements.
\<close>

definition example_engine :: engine where
  "example_engine =
     \<lparr>cells = [(3, ObjectCell []),
               (4, ObjectCell [(''x'', Value_int 1)]),
               (7, ArrayCell [Value_bool True, Value_null])],
      hosts = [(3, \<lparr>address = 100, dynamic_type = Derived ''NativeTextNode'' HostObjectT\<rparr>)],
      events = []\<rparr>"

section \<open>Serialization to JSON\<close>

text \<open>
  Modelled from the spec: \<^verbatim>\<open>std::string Value::toJSON(JSContext &context) const\<close> is
  declared at line 806 and its body is not among the sources. The specification (4.2,
  7): \<open>toJSON\<close> performs a full structural walk, and rejects a cyclic reference graph
  with a serialization error rather than looping forever. The walk below descends
  into the properties of an object and the elements of an array, keeps the objects it
  is inside of (the path), and fails when it meets one of them again. The text of a
  value that is neither is given by the parameter \<open>leaf\<close>; the specification fixes no
  format, and the one here writes the members between braces or brackets, separated by
  commas, and the keys between quotation marks.
\<close>

text \<open>The object or array a value refers to.\<close>

definition referent :: "Value \<Rightarrow> PointerValue option" where
  "referent v =
     (if kind v = ObjectKind then (case data v of pointer p \<Rightarrow> ptr p | _ \<Rightarrow> None) else None)"

definition sub_values :: "engine \<Rightarrow> PointerValue \<Rightarrow> Value list" where
  "sub_values e a =
     (case map_of (cells e) a of
        Some (ObjectCell ps) \<Rightarrow> map snd ps
      | Some (ArrayCell xs) \<Rightarrow> xs
      | _ \<Rightarrow> [])"

fun join :: "string \<Rightarrow> string list \<Rightarrow> string" where
  "join sep [] = []"
| "join sep [s] = s"
| "join sep (s # t # ss) = s @ sep @ join sep (t # ss)"

definition quoted :: "string \<Rightarrow> string" where
  "quoted s = [CHR 0x22] @ s @ [CHR 0x22]"

definition compose_text :: "(Value \<Rightarrow> string) \<Rightarrow> engine \<Rightarrow> Value \<Rightarrow> PointerValue \<Rightarrow> string list \<Rightarrow> string" where
  "compose_text leaf e v a ss =
     (case map_of (cells e) a of
        Some (ObjectCell ps) \<Rightarrow>
          ''{'' @ join '','' (map (\<lambda>(k, s). quoted k @ '':'' @ s) (zip (map fst ps) ss)) @ ''}''
      | Some (ArrayCell xs) \<Rightarrow> ''['' @ join '','' ss @ '']''
      | _ \<Rightarrow> leaf v)"

definition unvisited :: "engine \<Rightarrow> PointerValue list \<Rightarrow> nat" where
  "unvisited e path = card (fst ` set (cells e) - set path)"

function toJSON_walk :: "(Value \<Rightarrow> string) \<Rightarrow> engine \<Rightarrow> PointerValue list \<Rightarrow> Value \<Rightarrow> error + string"
  and toJSON_walk_all ::
    "(Value \<Rightarrow> string) \<Rightarrow> engine \<Rightarrow> PointerValue list \<Rightarrow> Value list \<Rightarrow> error + string list"
where
  "toJSON_walk leaf e path v =
     (case referent v of
        None \<Rightarrow> Inr (leaf v)
      | Some a \<Rightarrow>
          if a \<in> set path then Inl SerializationError
          else (case toJSON_walk_all leaf e (a # path) (sub_values e a) of
                  Inl err \<Rightarrow> Inl err
                | Inr ss \<Rightarrow> Inr (compose_text leaf e v a ss)))"
| "toJSON_walk_all leaf e path [] = Inr []"
| "toJSON_walk_all leaf e path (v # vs) =
     (case toJSON_walk leaf e path v of
        Inl err \<Rightarrow> Inl err
      | Inr s \<Rightarrow>
          (case toJSON_walk_all leaf e path vs of
             Inl err \<Rightarrow> Inl err
           | Inr ss \<Rightarrow> Inr (s # ss)))"
  by pat_completeness auto

lemma sub_values_outside: "a \<notin> fst ` set (cells e) \<Longrightarrow> sub_values e a = []"
proof -
  assume "a \<notin> fst ` set (cells e)"
  then have "map_of (cells e) a = None"
    by (simp add: map_of_eq_None_iff)
  then show ?thesis
    by (simp add: sub_values_def)
qed

lemma unvisited_less:
  "a \<in> fst ` set (cells e) \<Longrightarrow> a \<notin> set path \<Longrightarrow> unvisited e (a # path) < unvisited e path"
  unfolding unvisited_def
  by (intro psubset_card_mono) auto

lemma unvisited_le: "unvisited e (a # path) \<le> unvisited e path"
  unfolding unvisited_def
  by (intro card_mono) auto

text \<open>The walk ends: each descent puts one more cell of the engine on the path.\<close>

termination toJSON_walk
proof (relation "inv_image (less_than <*lex*> less_than)
    (\<lambda>x. case x of
       Inl (leaf, e, path, v) \<Rightarrow> (unvisited e path, 1)
     | Inr (leaf, e, path, vs) \<Rightarrow> (unvisited e path, 2 * length vs))", goal_cases)
  case 1
  show ?case by (intro wf_inv_image wf_lex_prod wf_less_than)
next
  case (2 leaf e path v a)
  show ?case
  proof (cases "a \<in> fst ` set (cells e)")
    case True
    with 2 show ?thesis by (simp add: unvisited_less)
  next
    case False
    then have "sub_values e a = []" by (rule sub_values_outside)
    moreover have "unvisited e (a # path) \<le> unvisited e path" by (rule unvisited_le)
    ultimately show ?thesis by (auto simp: le_less)
  qed
next
  case 3
  then show ?case by simp
next
  case 4
  then show ?case by simp
qed

declare toJSON_walk.simps [simp del]

definition toJSON :: "(Value \<Rightarrow> string) \<Rightarrow> engine \<Rightarrow> Value \<Rightarrow> error + string" where
  "toJSON leaf e v = toJSON_walk leaf e [] v"

text \<open>
  The reference graph: \<open>edge e a b\<close> when a property or an element of \<open>a\<close> refers to \<open>b\<close>.
  The graph of a value is cyclic when some object that can be reached from the value
  can be reached from itself in one step or more.
\<close>

definition edge :: "engine \<Rightarrow> PointerValue \<Rightarrow> PointerValue \<Rightarrow> bool" where
  "edge e a b \<longleftrightarrow> Some b \<in> referent ` set (sub_values e a)"

definition cyclic :: "engine \<Rightarrow> Value \<Rightarrow> bool" where
  "cyclic e v \<longleftrightarrow> (\<exists>a b. referent v = Some a \<and> (edge e)\<^sup>*\<^sup>* a b \<and> (edge e)\<^sup>+\<^sup>+ b b)"

text \<open>
  Values and engines for the evaluations: a value that refers to the object at an
  address, a text for the leaves (the booleans by name, any other leaf as \<open>null\<close>), an
  object and an array that refer to each other, and an array that refers to one
  object twice.
\<close>

definition object_value :: "PointerValue \<Rightarrow> Value" where
  "object_value a = fst (Value_from_rvalue ObjectKind (Pointer_of (Some a)))"

definition example_leaf :: "Value \<Rightarrow> string" where
  "example_leaf v =
     (case data v of
        boolean b \<Rightarrow> if kind v = BooleanKind then (if b then ''true'' else ''false'') else ''null''
      | _ \<Rightarrow> ''null'')"

definition cyclic_engine :: engine where
  "cyclic_engine =
     \<lparr>cells = [(5, ObjectCell [(''child'', object_value 6)]),
               (6, ArrayCell [Value_null, object_value 5])],
      hosts = [],
      events = []\<rparr>"

definition shared_engine :: engine where
  "shared_engine =
     \<lparr>cells = [(8, ArrayCell [object_value 9, object_value 9]),
               (9, ObjectCell [(''ok'', Value_bool True)])],
      hosts = [],
      events = []\<rparr>"

section \<open>The string-keyed property operations, as the specification words them\<close>

text \<open>
  The specification (4.3): a string-keyed overload is a convenience form that builds
  the key through the adapter and then delegates to the keyed form. The key it built
  is a temporary of the overload, released when the keyed form is over.
\<close>

definition createdKey :: "'c JSContext \<Rightarrow> string \<Rightarrow> (String, 'c) action" where
  "createdKey ad n = ctx_createStringFromAscii ad (c_str n)"

definition through_created_key ::
    "'c JSContext \<Rightarrow> string \<Rightarrow> (String \<Rightarrow> ('a, 'c) action) \<Rightarrow> ('a, 'c) action" where
  "through_created_key ad n keyed =
     and_then (createdKey ad n) (\<lambda>key. cleanup (keyed key) (Pointer_destroy ad key))"

section \<open>The text node binding (text_node.cc)\<close>








subsection \<open>JSTextNode::instance (lines 16-22)\<close>

text \<open>
  The addresses of the contexts and of the class objects are natural numbers, and a
  pointer is \<open>None\<close> when it is null. The state is the function's static map, empty
  when the program starts, and the free store, which hands out the addresses in
  order; nothing in text_node.cc deletes a \<^verbatim>\<open>JSTextNode\<close>.
\<close>

record program =
  instanceMap :: "(nat \<times> nat option) list"
  next_address :: nat

definition initial_program :: "nat \<Rightarrow> program" where
  "initial_program a = \<lparr>instanceMap = [], next_address = a\<rparr>"

text \<open>\<^verbatim>\<open>new JSTextNode(context)\<close>\<close>

definition new_JSTextNode :: "nat \<Rightarrow> program \<Rightarrow> nat option \<times> program" where
  "new_JSTextNode ctx s = (Some (next_address s), s\<lparr>next_address := Suc (next_address s)\<rparr>)"

text \<open>
  \<^verbatim>\<open>instanceMap[context]\<close>: \<^verbatim>\<open>operator[]\<close> gives the mapped pointer, and inserts a null
  pointer first when the key is not there.
\<close>

definition index_instanceMap :: "nat \<Rightarrow> program \<Rightarrow> nat option \<times> program" where
  "index_instanceMap ctx s =
     (case map_of (instanceMap s) ctx of
        Some p \<Rightarrow> (p, s)
      | None \<Rightarrow> (None, s\<lparr>instanceMap := AList.update ctx None (instanceMap s)\<rparr>))"

definition JSTextNode_instance :: "nat \<Rightarrow> program \<Rightarrow> nat option \<times> program" where
  "JSTextNode_instance ctx s =
     index_instanceMap ctx
       (if map_of (instanceMap s) ctx = None
        then (case new_JSTextNode ctx s of
                (p, s') \<Rightarrow> s'\<lparr>instanceMap := AList.update ctx p (instanceMap s')\<rparr>)
        else s)"

text \<open>
  What a program does with the free store and the function: it calls
  \<^verbatim>\<open>JSTextNode::instance\<close> with a context, or allocates some other object. \<open>run\<close> gives
  the pointers that the calls of \<^verbatim>\<open>instance\<close> returned, each with the context it was
  called with, in order.
\<close>

datatype step = Instance nat | OtherNew

fun run :: "step list \<Rightarrow> program \<Rightarrow> (nat \<times> nat option) list" where
  "run [] s = []"
| "run (Instance ctx # steps) s =
     (case JSTextNode_instance ctx s of (p, s') \<Rightarrow> (ctx, p) # run steps s')"
| "run (OtherNew # steps) s = run steps (s\<lparr>next_address := Suc (next_address s)\<rparr>)"

text \<open>
  What holds of the state between two steps: every pointer in the map is not null and
  below the next free address, and no two contexts are mapped to the same pointer.
\<close>

definition instances_ok :: "program \<Rightarrow> bool" where
  "instances_ok s \<longleftrightarrow>
     (\<forall>c p. map_of (instanceMap s) c = Some p \<longrightarrow> (\<exists>q. p = Some q \<and> q < next_address s))
     \<and> (\<forall>c c' p. map_of (instanceMap s) c = Some p \<and> map_of (instanceMap s) c' = Some p
           \<longrightarrow> c = c')"

section \<open>Scalar construction and the kind predicates\<close>

lemmas Value_ctor_defs =
  Value_default_def Value_nullptr_def Value_bool_def Value_double_def Value_int_def
  Value_of_kind_def Value_undefined_def Value_null_def

lemmas kind_test_defs =
  kind_tests_def isUndefined_def isNull_def isBool_def isNumber_def isString_def
  isSymbol_def isObject_def

text \<open>
  C3. A value built for a scalar kind satisfies the predicate of that kind and no
  other predicate: \<open>Value()\<close> is only \<open>isUndefined\<close>, \<open>Value(nullptr)\<close> only \<open>isNull\<close>,
  \<open>Value(b)\<close> only \<open>isBool\<close> for either boolean \<open>b\<close>, and \<open>Value(d)\<close> for a double and
  \<open>Value(i)\<close> for an int only \<open>isNumber\<close>.
\<close>

theorem scalar_value_only_its_kind:
  "kind_tests Value_default = [True, False, False, False, False, False, False]
   \<and> kind_tests Value_undefined = [True, False, False, False, False, False, False]
   \<and> kind_tests Value_nullptr = [False, True, False, False, False, False, False]
   \<and> kind_tests Value_null = [False, True, False, False, False, False, False]
   \<and> kind_tests (Value_bool b) = [False, False, True, False, False, False, False]
   \<and> kind_tests (Value_double d) = [False, False, False, True, False, False, False]
   \<and> kind_tests (Value_int i) = [False, False, False, True, False, False, False]"
  by (simp add: Value_ctor_defs kind_test_defs)

section \<open>The unchecked accessors\<close>

text \<open>
  The accessors whose bodies assert do fault on a value of another kind, and on an
  object without the capability.
\<close>

lemma asserting_accessors_fault:
  "\<not> isNumber v \<Longrightarrow> getNumber v = Inl AssertionFailed"
  "\<not> ctx_isArray ad obj c \<Longrightarrow> Object_getArray ad obj c = (Inl AssertionFailed, c)"
  "\<not> ctx_isArray ad obj c \<Longrightarrow> Object_getArray_rvalue ad obj c = (Inl AssertionFailed, c)"
  "\<not> ctx_isArrayBuffer ad obj c \<Longrightarrow> Object_getArrayBuffer ad obj c = (Inl AssertionFailed, c)"
  "\<not> ctx_isArrayBuffer ad obj c \<Longrightarrow>
     Object_getArrayBuffer_rvalue ad obj c = (Inl AssertionFailed, c)"
  "\<not> ctx_isArrayBufferView ad obj c \<Longrightarrow>
     Object_getArrayBufferView ad obj c = (Inl AssertionFailed, c)"
  "\<not> ctx_isFunction ad obj c \<Longrightarrow> Object_getFunction ad obj c = (Inl AssertionFailed, c)"
  "\<not> ctx_isFunction ad obj c \<Longrightarrow> Object_getFunction_rvalue ad obj c = (Inl AssertionFailed, c)"
  "\<not> Object_isHostObject ad T obj c \<Longrightarrow> Object_getHostObject ad T obj c = (Inl AssertionFailed, c)"
  by (auto simp: getNumber_def Object_getArray_def Object_getArray_rvalue_def
      Object_getArrayBuffer_def Object_getArrayBuffer_rvalue_def Object_getArrayBufferView_def
      Object_getFunction_def Object_getFunction_rvalue_def Object_getHostObject_def
      Object_isHostObject_def throws_def)

text \<open>
  C1 says that every unchecked accessor faults on a value of another kind. Two of them
  have no assert: \<open>getBool\<close> on the null value returns \<open>false\<close>, the member that the
  constructor initialised, and on a number it returns whatever the bytes of the
  number give; the \<open>&&\<close> overload of \<open>getArrayBufferView\<close> on an object that is not a view
  of an array buffer returns a wrapper of its handle.
\<close>

theorem unchecked_accessors_without_assert:
  "\<not> isBool Value_nullptr
   \<and> getBool Value_nullptr = Inr (Some False)
   \<and> \<not> isBool (Value_double 3)
   \<and> getBool (Value_double 3) = Inr None
   \<and> \<not> ctx_isArrayBufferView engine_adapter (Pointer_of (Some 3)) example_engine
   \<and> Object_getArrayBufferView_rvalue engine_adapter (Pointer_of (Some 3)) example_engine
       = (Inr (Pointer_of (Some 3), Pointer_of None), example_engine)"
  by (simp add: isBool_def getBool_def Value_ctor_defs Object_getArrayBufferView_rvalue_def
      cast_take_def returns_def engine_adapter_def Pointer_of_def)

section \<open>Ownership of a handle\<close>

text \<open>
  C2. After a move construction and after a move assignment the source holds no handle
  and its destruction leaves the engine as it is, and the destination holds the handle
  the source had. The destruction of a wrapper that holds a handle is one call of
  \<open>invalidate\<close> on that handle; so is the destruction of the source and of the
  destination of a move, together.
\<close>

theorem move_leaves_source_empty:
  "(case Pointer_move src of
      (dst, src') \<Rightarrow>
        ptr src' = None \<and> ptr dst = ptr src \<and> Pointer_destroy ad src' c = c)
   \<and> (case Pointer_move_assign ad dst0 src c of
        (dst, src', c') \<Rightarrow>
          ptr src' = None \<and> ptr dst = ptr src \<and> Pointer_destroy ad src' c' = c')
   \<and> Pointer_destroy ad (Pointer_of (Some h)) c = ctx_invalidate ad h c
   \<and> Pointer_destroy ad (fst (Pointer_move (Pointer_of (Some h))))
        (Pointer_destroy ad (snd (Pointer_move (Pointer_of (Some h)))) c)
      = ctx_invalidate ad h c"
  by (simp add: Pointer_move_def Pointer_move_assign_def Pointer_destroy_def Pointer_of_def)

text \<open>On the engine that logs: the handle is invalidated once.\<close>

theorem move_leaves_source_empty_witness:
  "events (Pointer_destroy engine_adapter (fst (Pointer_move (Pointer_of (Some 4))))
        (Pointer_destroy engine_adapter (snd (Pointer_move (Pointer_of (Some 4))))
           example_engine))
     = [Invalidated 4]"
  using move_leaves_source_empty [of "Pointer_of (Some 4)" engine_adapter example_engine
      "Pointer_of None" 4]
  by (simp add: engine_adapter_def record_event_def example_engine_def)

section \<open>The call modes of a function\<close>

lemma cleanup_id: "cleanup m (\<lambda>c. c) = m"
  by (auto simp: cleanup_def fun_eq_iff split: prod.splits sum.splits error.splits)

lemma Value_destroy_undefined: "Value_destroy ad Value_undefined = (\<lambda>c. c)"
  by (simp add: fun_eq_iff Value_destroy_def Value_ctor_defs PointerKind_def)

text \<open>
  C8. \<open>Function::call\<close> is the adapter's \<open>call\<close> with the undefined value as \<open>this\<close>;
  \<open>callWithThis\<close> is the adapter's \<open>call\<close> with a value that holds a clone of the object
  as \<open>this\<close>, destroyed after the call; \<open>callAsConstructor\<close> is the adapter's
  \<open>callAsConstructor\<close>. The two primitives are apart: replacing the adapter's \<open>call\<close>
  changes nothing of \<open>callAsConstructor\<close>, and the other way round.
\<close>

theorem call_modes:
  "Function_call ad f args = ctx_call ad f Value_undefined args
   \<and> Function_callWithThis ad f jsThis args =
       and_then (Value_of_Object ad jsThis)
         (\<lambda>thisValue. cleanup (ctx_call ad f thisValue args) (Value_destroy ad thisValue))
   \<and> Function_callAsConstructor ad f args = ctx_callAsConstructor ad f args
   \<and> Function_callAsConstructor (ad\<lparr>ctx_call := other_call\<rparr>) f args =
       Function_callAsConstructor ad f args
   \<and> Function_call (ad\<lparr>ctx_callAsConstructor := other_ctor\<rparr>) f args =
       Function_call ad f args"
  by (simp add: Function_call_def Function_callWithThis_def Function_callAsConstructor_def
      Value_destroy_undefined cleanup_id)

text \<open>On the engine that logs: what each of the three asked the engine for.\<close>

theorem call_modes_witness:
  "events (snd (Function_call engine_adapter (Pointer_of (Some 3)) [Value_bool True]
       example_engine))
     = [Called (Some 3) Value_undefined [Value_bool True]]
   \<and> events (snd (Function_callWithThis engine_adapter (Pointer_of (Some 3)) (Pointer_of (Some 4))
       [Value_bool True] example_engine))
     = [Called (Some 3) ((Value_of_kind ObjectKind)\<lparr>data := pointer (Pointer_of (Some 4))\<rparr>)
          [Value_bool True],
        Invalidated 4]
   \<and> events (snd (Function_callAsConstructor engine_adapter (Pointer_of (Some 3))
       [Value_bool True] example_engine))
     = [Constructed (Some 3) [Value_bool True]]"
  using call_modes [of engine_adapter "Pointer_of (Some 3)" "[Value_bool True]"
      "Pointer_of (Some 4)"]
  by (simp add: engine_adapter_def record_event_def example_engine_def returns_def
      and_then_def cleanup_def Value_of_Object_def Value_destroy_def Pointer_destroy_def
      Pointer_of_def PointerKind_def Value_of_kind_def)

section \<open>The checked and the unchecked downcast of a host object\<close>

lemma derives_from_refl: "derives_from T T"
  by (cases T) simp_all

lemma derives_from_HostObject: "derives_from d HostObjectT"
  by (induction d) simp_all

text \<open>
  C5. For an object whose payload is there when it is host-backed: \<open>isHostObject<T>\<close>
  holds exactly when the object is host-backed and its payload casts dynamically to
  \<open>T\<close>; on an object backed by a \<open>T\<close> (or by a class derived from \<open>T\<close>)
  \<open>asHostObject<T>\<close> returns the payload; on an object backed by a type that is not a
  \<open>T\<close>, and on an object that is not host-backed, \<open>asHostObject<T>\<close> throws a script
  error, which can be caught, and \<open>getHostObject<T>\<close> fails its assert.
\<close>

theorem host_object_downcast:
  assumes "ctx_isHostObject ad obj c \<Longrightarrow> ctx_getHostObject ad obj c \<noteq> None"
  shows
    "(Object_isHostObject ad T obj c \<longleftrightarrow>
        ctx_isHostObject ad obj c \<and> dynamic_pointer_cast T (ctx_getHostObject ad obj c) \<noteq> None)
     \<and> (ctx_isHostObject ad obj c \<and> ctx_getHostObject ad obj c = Some h
          \<and> derives_from (dynamic_type h) T \<longrightarrow>
          Object_asHostObject ad T obj c = (Inr (Some h), c))
     \<and> (ctx_isHostObject ad obj c \<and> ctx_getHostObject ad obj c = Some h
          \<and> \<not> derives_from (dynamic_type h) T \<longrightarrow>
          Object_asHostObject ad T obj c =
            (Inl (JSError ''Object is not a HostObject of desired type''), c)
          \<and> Object_getHostObject ad T obj c = (Inl AssertionFailed, c))
     \<and> (\<not> ctx_isHostObject ad obj c \<longrightarrow>
          Object_asHostObject ad T obj c =
            (Inl (JSError ''Object is not a HostObject of desired type''), c)
          \<and> Object_getHostObject ad T obj c = (Inl AssertionFailed, c))
     \<and> catchable (JSError ''Object is not a HostObject of desired type'')
     \<and> derives_from T T"
proof -
  have iff: "Object_isHostObject ad T obj c \<longleftrightarrow>
      ctx_isHostObject ad obj c \<and> dynamic_pointer_cast T (ctx_getHostObject ad obj c) \<noteq> None"
    using assms
    by (auto simp: Object_isHostObject_def dynamic_pointer_cast_def derives_from_HostObject
        split: option.splits)
  have same: "Object_asHostObject ad T obj c = (Inr (Some h), c)"
    if "ctx_isHostObject ad obj c" "ctx_getHostObject ad obj c = Some h"
      "derives_from (dynamic_type h) T"
    using that
    by (auto simp: Object_asHostObject_def Object_isHostObject_def dynamic_pointer_cast_def
        static_pointer_cast_def returns_def)
  have unrelated: "\<not> Object_isHostObject ad T obj c"
    if "ctx_getHostObject ad obj c = Some h" "\<not> derives_from (dynamic_type h) T"
  proof -
    from that have "T \<noteq> HostObjectT"
      using derives_from_HostObject by auto
    with that show ?thesis
      by (simp add: Object_isHostObject_def dynamic_pointer_cast_def)
  qed
  have absent: "\<not> Object_isHostObject ad T obj c" if "\<not> ctx_isHostObject ad obj c"
    using that by (simp add: Object_isHostObject_def)
  have fails: "Object_asHostObject ad T obj c =
        (Inl (JSError ''Object is not a HostObject of desired type''), c)
      \<and> Object_getHostObject ad T obj c = (Inl AssertionFailed, c)"
    if "\<not> Object_isHostObject ad T obj c"
    using that
    by (auto simp: Object_asHostObject_def Object_getHostObject_def Object_isHostObject_def
        throwJSError_def throws_def)
  show ?thesis
    using iff same unrelated absent fails derives_from_refl by auto
qed

lemma example_hosts:
  "ctx_isHostObject engine_adapter (Pointer_of (Some 3)) example_engine"
  "ctx_getHostObject engine_adapter (Pointer_of (Some 3)) example_engine
     = Some \<lparr>address = 100, dynamic_type = Derived ''NativeTextNode'' HostObjectT\<rparr>"
  "\<not> ctx_isHostObject engine_adapter (Pointer_of (Some 4)) example_engine"
  by (simp_all add: engine_adapter_def host_at_def example_engine_def Pointer_of_def)

theorem host_object_downcast_witness:
  "Object_asHostObject engine_adapter (Derived ''NativeTextNode'' HostObjectT)
       (Pointer_of (Some 3)) example_engine
     = (Inr (Some \<lparr>address = 100, dynamic_type = Derived ''NativeTextNode'' HostObjectT\<rparr>),
        example_engine)
   \<and> Object_asHostObject engine_adapter (Derived ''NativeElement'' HostObjectT)
       (Pointer_of (Some 3)) example_engine
     = (Inl (JSError ''Object is not a HostObject of desired type''), example_engine)
   \<and> Object_getHostObject engine_adapter (Derived ''NativeElement'' HostObjectT)
       (Pointer_of (Some 3)) example_engine
     = (Inl AssertionFailed, example_engine)
   \<and> Object_asHostObject engine_adapter (Derived ''NativeTextNode'' HostObjectT)
       (Pointer_of (Some 4)) example_engine
     = (Inl (JSError ''Object is not a HostObject of desired type''), example_engine)"
proof -
  have p1: "ctx_isHostObject engine_adapter (Pointer_of (Some 3)) example_engine \<Longrightarrow>
      ctx_getHostObject engine_adapter (Pointer_of (Some 3)) example_engine \<noteq> None"
    by (simp add: example_hosts)
  have p2: "ctx_isHostObject engine_adapter (Pointer_of (Some 4)) example_engine \<Longrightarrow>
      ctx_getHostObject engine_adapter (Pointer_of (Some 4)) example_engine \<noteq> None"
    by (simp add: example_hosts)
  note same = host_object_downcast [OF p1, of "Derived ''NativeTextNode'' HostObjectT"
      "\<lparr>address = 100, dynamic_type = Derived ''NativeTextNode'' HostObjectT\<rparr>"]
  note unrelated = host_object_downcast [OF p1, of "Derived ''NativeElement'' HostObjectT"
      "\<lparr>address = 100, dynamic_type = Derived ''NativeTextNode'' HostObjectT\<rparr>"]
  note absent = host_object_downcast [OF p2, of "Derived ''NativeTextNode'' HostObjectT"]
  from same unrelated absent show ?thesis
    by (simp add: example_hosts)
qed

section \<open>The bounds of an array access\<close>

lemma fst_cleanup: "fst (cleanup m d c) = fst (m c)"
  by (simp add: cleanup_def split: prod.splits sum.splits error.splits)

lemma fst_with_converted:
  "toValue ad a c = (Inr v, c1) \<Longrightarrow> fst (with_converted ad a f c) = fst (f v c1)"
  by (simp add: with_converted_def and_then_def fst_cleanup)

text \<open>
  C4. With the array primitives of the adapter as the specification has them:
  \<open>getValueAtIndex\<close> raises the range error exactly when the index is not below the
  length that the array has in the state of the call; \<open>setValueAtIndex\<close>, once its
  argument is converted, raises it exactly when the index is not below the length in
  the state that the conversion left; below the length both succeed. The range error
  can be caught.
\<close>

theorem array_index_range_error:
  "(fst (Array_getValueAtIndex (with_spec_arrays ad) arr i e) = Inl RangeError
      \<longleftrightarrow> \<not> i < Array_length (with_spec_arrays ad) arr e)
   \<and> (toValue (with_spec_arrays ad) a e = (Inr v, e1) \<longrightarrow>
        (fst (Array_setValueAtIndex (with_spec_arrays ad) arr i a e) = Inl RangeError
           \<longleftrightarrow> \<not> i < Array_length (with_spec_arrays ad) arr e1))
   \<and> (i < Array_length (with_spec_arrays ad) arr e \<longrightarrow>
        Array_getValueAtIndex (with_spec_arrays ad) arr i e = (Inr (elements e arr ! i), e))
   \<and> (toValue (with_spec_arrays ad) a e = (Inr v, e1)
        \<and> i < Array_length (with_spec_arrays ad) arr e1 \<longrightarrow>
        fst (Array_setValueAtIndex (with_spec_arrays ad) arr i a e) = Inr ())
   \<and> catchable RangeError"
proof -
  let ?ad = "with_spec_arrays ad"
  have len: "Array_length ?ad arr c = engine_size arr c" for c
    by (simp add: Array_length_def Array_size_def with_spec_arrays_def)
  have get: "Array_getValueAtIndex ?ad arr i = engine_getValueAtIndex arr i"
    by (simp add: Array_getValueAtIndex_def with_spec_arrays_def)
  have impl: "Array_setValueAtIndexImpl ?ad arr i = engine_setValueAtIndexImpl arr i"
    by (simp add: Array_setValueAtIndexImpl_def with_spec_arrays_def fun_eq_iff)
  have set: "fst (Array_setValueAtIndex ?ad arr i a e) = fst (engine_setValueAtIndexImpl arr i v e1)"
    if "toValue ?ad a e = (Inr v, e1)"
    using that by (simp add: Array_setValueAtIndex_def fst_with_converted impl)
  show ?thesis
    by (auto simp: len get set engine_getValueAtIndex_def engine_setValueAtIndexImpl_def
        returns_def throws_def)
qed

lemma with_spec_arrays_engine_adapter: "with_spec_arrays engine_adapter = engine_adapter"
  by (simp add: with_spec_arrays_def engine_adapter_def)

lemma example_length:
  "Array_length engine_adapter (Pointer_of (Some 7)) example_engine = 2"
  by (simp add: Array_length_def Array_size_def engine_adapter_def engine_size_def elements_def
      cell_at_def example_engine_def Pointer_of_def)

lemma example_toValue:
  "toValue engine_adapter (from_bool False) example_engine
     = (Inr (Value_bool False), example_engine)"
  by (simp add: returns_def)

lemma example_element:
  "elements example_engine (Pointer_of (Some 7)) ! 1 = Value_null"
  by (simp add: elements_def cell_at_def example_engine_def Pointer_of_def)

text \<open>The array of two elements: index 2 is the length, index 1 the last element.\<close>

theorem array_index_range_error_witness:
  "fst (Array_getValueAtIndex engine_adapter (Pointer_of (Some 7)) 2 example_engine) = Inl RangeError
   \<and> Array_getValueAtIndex engine_adapter (Pointer_of (Some 7)) 1 example_engine
       = (Inr Value_null, example_engine)
   \<and> fst (Array_setValueAtIndex engine_adapter (Pointer_of (Some 7)) 2 (from_bool False)
        example_engine) = Inl RangeError
   \<and> fst (Array_setValueAtIndex engine_adapter (Pointer_of (Some 7)) 1 (from_bool False)
        example_engine) = Inr ()"
proof -
  note at2 = array_index_range_error [of engine_adapter "Pointer_of (Some 7)" 2 example_engine
      "from_bool False" "Value_bool False" example_engine,
      unfolded with_spec_arrays_engine_adapter example_length]
  note at1 = array_index_range_error [of engine_adapter "Pointer_of (Some 7)" 1 example_engine
      "from_bool False" "Value_bool False" example_engine,
      unfolded with_spec_arrays_engine_adapter example_length example_element]
  have out: "\<not> (2::nat) < 2" and inside: "(1::nat) < 2"
    by simp_all
  from at2 at1 out inside example_toValue show ?thesis
    by blast
qed

text \<open>
  The length is the one of the state of the call: once the script has appended an
  element to the array, the same wrapper reads index 2.
\<close>

lemma length_read_at_call_time:
  "fst (Array_getValueAtIndex engine_adapter (Pointer_of (Some 7)) 2
          (store_cell (Some 7) (ArrayCell [Value_bool True, Value_null, Value_int 5])
             example_engine))
     = Inr (Value_int 5)"
  by (simp add: Array_getValueAtIndex_def engine_adapter_def engine_getValueAtIndex_def
      engine_size_def elements_def cell_at_def store_cell_def example_engine_def Pointer_of_def
      returns_def)

section \<open>The C-string forms of the property operations\<close>

lemma Pointer_destroy_None: "ptr p = None \<Longrightarrow> Pointer_destroy ad p = (\<lambda>c. c)"
  by (simp add: Pointer_destroy_def fun_eq_iff)

lemma Value_of_temporary_String_eq:
  "Value_of_temporary_String ad create =
     and_then create
       (\<lambda>str. returns ((Value_of_kind StringKind)\<lparr>data := pointer \<lparr>ptr = ptr str\<rparr>\<rparr>))"
  by (simp add: Value_of_temporary_String_def Value_from_rvalue_def Pointer_move_def
      Pointer_destroy_None cleanup_id)

lemma snd_and_then_returns: "snd (and_then m (\<lambda>x. returns (f x)) c) = snd (m c)"
  by (simp add: and_then_def returns_def split: prod.splits sum.splits)

text \<open>
  C7. Each C-string form of \<open>getProperty\<close>, \<open>hasProperty\<close>, \<open>removeProperty\<close> and
  \<open>setProperty\<close> is the keyed form run on the key that the adapter built from the
  name. The conversion of the argument of \<open>setProperty\<close> leaves the engine as it is for
  a null pointer, a boolean, a number and a value passed by rvalue; for a string it
  leaves the state that the creation of the string leaves, for a symbol, a string
  or an object the state that the clone of its handle leaves.
\<close>

theorem cstring_forms_delegate:
  "Object_getProperty_cstr ad obj n = through_created_key ad n (Object_getProperty_String ad obj)
   \<and> Object_hasProperty_cstr ad obj n = through_created_key ad n (Object_hasProperty_String ad obj)
   \<and> Object_removeProperty_cstr ad obj n
       = through_created_key ad n (Object_removeProperty_String ad obj)
   \<and> Object_setProperty_cstr ad obj n a
       = through_created_key ad n (\<lambda>key. Object_setProperty_String ad obj key a)
   \<and> toValue ad from_nullptr c = (Inr Value_null, c)
   \<and> toValue ad (from_bool b) c = (Inr (Value_bool b), c)
   \<and> toValue ad (from_double d) c = (Inr (Value_double d), c)
   \<and> toValue ad (from_float d) c = (Inr (Value_double d), c)
   \<and> toValue ad (from_int i) c = (Inr (Value_int i), c)
   \<and> toValue ad (from_Value_rvalue v) c = (Inr v, c)
   \<and> snd (toValue ad (from_cstr s) c) = snd (ctx_createStringFromAscii ad (c_str s) c)
   \<and> snd (toValue ad (from_std_string s) c) = snd (ctx_createStringFromAscii ad s c)
   \<and> snd (toValue ad (from_Symbol p) c) = snd (ctx_cloneSymbol ad (ptr p) c)
   \<and> snd (toValue ad (from_String p) c) = snd (ctx_cloneString ad (ptr p) c)
   \<and> snd (toValue ad (from_Object p) c) = snd (ctx_cloneObject ad (ptr p) c)"
proof -
  have keyed:
    "Object_getProperty_cstr ad obj n = through_created_key ad n (Object_getProperty_String ad obj)"
    "Object_hasProperty_cstr ad obj n = through_created_key ad n (Object_hasProperty_String ad obj)"
    "Object_removeProperty_cstr ad obj n
       = through_created_key ad n (Object_removeProperty_String ad obj)"
    "Object_setProperty_cstr ad obj n a
       = through_created_key ad n (\<lambda>key. Object_setProperty_String ad obj key a)"
    by (simp_all add: Object_getProperty_cstr_def Object_hasProperty_cstr_def
        Object_removeProperty_cstr_def Object_setProperty_cstr_def through_created_key_def
        createdKey_def String_createFromAscii_cstr_def Object_removeProperty_String_def)
  have scalars:
    "toValue ad from_nullptr c = (Inr Value_null, c)"
    "toValue ad (from_bool b) c = (Inr (Value_bool b), c)"
    "toValue ad (from_double d) c = (Inr (Value_double d), c)"
    "toValue ad (from_float d) c = (Inr (Value_double d), c)"
    "toValue ad (from_int i) c = (Inr (Value_int i), c)"
    "toValue ad (from_Value_rvalue v) c = (Inr v, c)"
    by (simp_all add: returns_def)
  have strings:
    "snd (toValue ad (from_cstr s) c) = snd (ctx_createStringFromAscii ad (c_str s) c)"
    "snd (toValue ad (from_std_string s) c) = snd (ctx_createStringFromAscii ad s c)"
    by (simp_all add: Value_of_temporary_String_eq snd_and_then_returns
        String_createFromAscii_cstr_def String_createFromAscii_string_def)
  have clones:
    "snd (toValue ad (from_Symbol p) c) = snd (ctx_cloneSymbol ad (ptr p) c)"
    "snd (toValue ad (from_String p) c) = snd (ctx_cloneString ad (ptr p) c)"
    "snd (toValue ad (from_Object p) c) = snd (ctx_cloneObject ad (ptr p) c)"
    by (simp_all add: Value_of_Symbol_def Value_of_String_def Value_of_Object_def
        snd_and_then_returns)
  from keyed scalars strings clones show ?thesis
    by blast
qed

section \<open>The property switch of the text node\<close>




section \<open>One class object for each context\<close>

lemma instance_step:
  assumes "instances_ok s" and "JSTextNode_instance ctx s = (p, s')"
  shows "instances_ok s'" and "map_of (instanceMap s') ctx = Some p"
    and "map_of (instanceMap s) \<subseteq>\<^sub>m map_of (instanceMap s')"
proof -
  show "instances_ok s'"
  proof (cases "map_of (instanceMap s) ctx")
    case None
    with assms(2) have s': "s' = s\<lparr>next_address := Suc (next_address s),
        instanceMap := AList.update ctx (Some (next_address s)) (instanceMap s)\<rparr>"
      by (auto simp: JSTextNode_instance_def index_instanceMap_def new_JSTextNode_def
          update_conv')
    from assms(1) None show ?thesis
      unfolding instances_ok_def s'
      by (auto simp: update_conv' less_Suc_eq split: if_splits)
  next
    case (Some q)
    with assms show ?thesis
      by (auto simp: JSTextNode_instance_def index_instanceMap_def)
  qed
  show "map_of (instanceMap s') ctx = Some p"
    using assms(2)
    by (cases "map_of (instanceMap s) ctx")
      (auto simp: JSTextNode_instance_def index_instanceMap_def new_JSTextNode_def update_conv')
  show "map_of (instanceMap s) \<subseteq>\<^sub>m map_of (instanceMap s')"
    using assms(2)
    by (cases "map_of (instanceMap s) ctx")
      (auto simp: JSTextNode_instance_def index_instanceMap_def new_JSTextNode_def update_conv'
        map_le_def)
qed

lemma other_new_step:
  "instances_ok s \<Longrightarrow> instances_ok (s\<lparr>next_address := Suc (next_address s)\<rparr>)"
  unfolding instances_ok_def by (auto simp: less_Suc_eq) 

lemma run_in_final_map:
  "instances_ok s \<Longrightarrow>
   \<exists>m. map_of (instanceMap s) \<subseteq>\<^sub>m m
     \<and> (\<forall>c p. m c = Some p \<longrightarrow> p \<noteq> None)
     \<and> (\<forall>c c' p. m c = Some p \<and> m c' = Some p \<longrightarrow> c = c')
     \<and> (\<forall>(c, p) \<in> set (run steps s). m c = Some p)"
proof (induction steps arbitrary: s)
  case Nil
  then show ?case
    by (intro exI [of _ "map_of (instanceMap s)"]) (auto simp: instances_ok_def)
next
  case (Cons st steps)
  show ?case
  proof (cases st)
    case (Instance ctx)
    obtain p s' where step: "JSTextNode_instance ctx s = (p, s')"
      by (cases "JSTextNode_instance ctx s")
    note facts = instance_step [OF Cons.prems step]
    from Cons.IH [OF facts(1)] obtain m where m:
      "map_of (instanceMap s') \<subseteq>\<^sub>m m"
      "\<forall>c p. m c = Some p \<longrightarrow> p \<noteq> None"
      "\<forall>c c' p. m c = Some p \<and> m c' = Some p \<longrightarrow> c = c'"
      "\<forall>(c, p) \<in> set (run steps s'). m c = Some p"
      by blast
    have "m ctx = Some p"
      using m(1) facts(2) by (auto simp: map_le_def dom_def)
    moreover have "map_of (instanceMap s) \<subseteq>\<^sub>m m"
      using facts(3) m(1) by (rule map_le_trans)
    ultimately show ?thesis
      using m(2,3,4) Instance step by (intro exI [of _ m]) auto
  next
    case OtherNew
    from Cons.IH [OF other_new_step [OF Cons.prems]] show ?thesis
      using OtherNew by simp
  qed
qed

lemma initial_ok: "instances_ok (initial_program a)"
  by (simp add: instances_ok_def initial_program_def)

text \<open>
  C10. In a run of the program from its start, two calls of \<open>JSTextNode::instance\<close>
  return the same pointer exactly when they were given the same context, and the
  pointer is not null.
\<close>

theorem instance_one_per_context:
  assumes "(c1, p1) \<in> set (run steps (initial_program a))"
    and "(c2, p2) \<in> set (run steps (initial_program a))"
  shows "(p1 = p2 \<longleftrightarrow> c1 = c2) \<and> p1 \<noteq> None"
proof -
  from run_in_final_map [OF initial_ok, of a steps] obtain m where m:
    "\<forall>c p. m c = Some p \<longrightarrow> p \<noteq> None"
    "\<forall>c c' p. m c = Some p \<and> m c' = Some p \<longrightarrow> c = c'"
    "\<forall>(c, p) \<in> set (run steps (initial_program a)). m c = Some p"
    by blast
  from m(3) assms have "m c1 = Some p1" "m c2 = Some p2"
    by auto
  with m(1,2) show ?thesis
    by (metis option.inject)
qed

lemma example_run:
  "run [Instance 40, OtherNew, Instance 50, Instance 40] (initial_program 1000)
     = [(40, Some 1000), (50, Some 1002), (40, Some 1000)]"
  by (simp add: initial_program_def JSTextNode_instance_def index_instanceMap_def
      new_JSTextNode_def)

theorem instance_one_per_context_witness:
  "(40, Some 1000) \<in> set (run [Instance 40, OtherNew, Instance 50, Instance 40] (initial_program 1000))
   \<and> (50, Some 1002) \<in> set (run [Instance 40, OtherNew, Instance 50, Instance 40] (initial_program 1000))
   \<and> Some (1000::nat) \<noteq> Some 1002 \<and> Some (1000::nat) \<noteq> None"
proof -
  have a: "(40, Some 1000) \<in> set (run [Instance 40, OtherNew, Instance 50, Instance 40] (initial_program 1000))"
    and b: "(50, Some 1002) \<in> set (run [Instance 40, OtherNew, Instance 50, Instance 40] (initial_program 1000))"
    unfolding example_run by simp_all
  from instance_one_per_context [OF a b] a b show ?thesis
    by simp
qed

section \<open>Serialization and cycles\<close>

lemma edge_iff: "edge e a c \<longleftrightarrow> (\<exists>v \<in> set (sub_values e a). referent v = Some c)"
  by (force simp: edge_def image_iff)

text \<open>A walk that returns has met no node of the path and no node of a cycle.\<close>

lemma walk_returns_clean:
  "toJSON_walk leaf e path v = Inr s \<Longrightarrow> referent v = Some a \<Longrightarrow> (edge e)\<^sup>*\<^sup>* a b
     \<Longrightarrow> b \<notin> set path \<and> \<not> (edge e)\<^sup>+\<^sup>+ b b"
  "toJSON_walk_all leaf e path vs = Inr ss \<Longrightarrow> v' \<in> set vs \<Longrightarrow> referent v' = Some a
     \<Longrightarrow> (edge e)\<^sup>*\<^sup>* a b \<Longrightarrow> b \<notin> set path \<and> \<not> (edge e)\<^sup>+\<^sup>+ b b"
proof (induction leaf e path v and leaf e path vs arbitrary: s a b and ss v' a b
    rule: toJSON_walk_toJSON_walk_all.induct)
  case (1 leaf e path v)
  from "1.prems"(1,2) have fresh: "a \<notin> set path"
    by (auto simp: toJSON_walk.simps split: if_splits)
  from "1.prems"(1,2) fresh obtain ss where
    sub: "toJSON_walk_all leaf e (a # path) (sub_values e a) = Inr ss"
    by (auto simp: toJSON_walk.simps split: sum.splits)
  note below = "1.IH" [OF "1.prems"(2) fresh sub]
  have no_loop: "\<not> (edge e)\<^sup>+\<^sup>+ a a"
  proof
    assume "(edge e)\<^sup>+\<^sup>+ a a"
    then obtain c where "edge e a c" "(edge e)\<^sup>*\<^sup>* c a"
      by (auto dest: tranclpD)
    then obtain w where "w \<in> set (sub_values e a)" "referent w = Some c"
      by (auto simp: edge_iff)
    from below [OF this \<open>(edge e)\<^sup>*\<^sup>* c a\<close>] show False
      by simp
  qed
  show ?case
  proof (cases "b = a")
    case True
    with fresh no_loop show ?thesis by simp
  next
    case False
    with "1.prems"(3) obtain c where "edge e a c" "(edge e)\<^sup>*\<^sup>* c b"
      by (auto elim: converse_rtranclpE)
    then obtain w where "w \<in> set (sub_values e a)" "referent w = Some c"
      by (auto simp: edge_iff)
    from below [OF this \<open>(edge e)\<^sup>*\<^sup>* c b\<close>] show ?thesis
      by simp
  qed
next
  case (2 leaf e path)
  then show ?case by simp
next
  case (3 leaf e path v vs)
  from "3.prems"(1) obtain s ss' where
    head: "toJSON_walk leaf e path v = Inr s" and
    tail: "toJSON_walk_all leaf e path vs = Inr ss'"
    by (auto split: sum.splits)
  from "3.prems"(2) consider "v' = v" | "v' \<in> set vs"
    by auto
  then show ?case
  proof cases
    case 1
    with "3.IH"(1) [OF head] "3.prems"(3,4) show ?thesis by blast
  next
    case 2
    with "3.IH"(2) [OF head tail] "3.prems"(3,4) show ?thesis by blast
  qed
qed

text \<open>
  A walk that fails has met a node of the path or a node of a cycle, and fails with
  the serialization error.
\<close>

lemma walk_fails_on_cycle:
  "toJSON_walk leaf e path v = Inl err \<Longrightarrow>
     err = SerializationError
     \<and> (\<exists>a b. referent v = Some a \<and> (edge e)\<^sup>*\<^sup>* a b \<and> (b \<in> set path \<or> (edge e)\<^sup>+\<^sup>+ b b))"
  "toJSON_walk_all leaf e path vs = Inl err \<Longrightarrow>
     err = SerializationError
     \<and> (\<exists>v' \<in> set vs. \<exists>a b. referent v' = Some a \<and> (edge e)\<^sup>*\<^sup>* a b
           \<and> (b \<in> set path \<or> (edge e)\<^sup>+\<^sup>+ b b))"
proof (induction leaf e path v and leaf e path vs arbitrary: err and err
    rule: toJSON_walk_toJSON_walk_all.induct)
  case (1 leaf e path v)
  from "1.prems" obtain a where a: "referent v = Some a"
    by (auto simp: toJSON_walk.simps split: option.splits)
  show ?case
  proof (cases "a \<in> set path")
    case True
    with "1.prems" a show ?thesis
      by (auto simp: toJSON_walk.simps)
  next
    case False
    with "1.prems" a have sub: "toJSON_walk_all leaf e (a # path) (sub_values e a) = Inl err"
      by (auto simp: toJSON_walk.simps split: sum.splits)
    from "1.IH" [OF a False sub] obtain w c b where
      err: "err = SerializationError" and
      w: "w \<in> set (sub_values e a)" "referent w = Some c" and
      reach: "(edge e)\<^sup>*\<^sup>* c b" and
      found: "b \<in> set (a # path) \<or> (edge e)\<^sup>+\<^sup>+ b b"
      by blast
    from w have step: "edge e a c"
      by (auto simp: edge_iff)
    from step reach have ab: "(edge e)\<^sup>*\<^sup>* a b"
      by (rule converse_rtranclp_into_rtranclp)
    show ?thesis
    proof (cases "b = a")
      case True
      with step reach have "(edge e)\<^sup>+\<^sup>+ a a"
        by (auto intro: rtranclp_into_tranclp2)
      with a err show ?thesis by blast
    next
      case False
      with found have "b \<in> set path \<or> (edge e)\<^sup>+\<^sup>+ b b" by simp
      with a ab err show ?thesis by blast
    qed
  qed
next
  case (2 leaf e path)
  then show ?case by simp
next
  case (3 leaf e path v vs)
  show ?case
  proof (cases "toJSON_walk leaf e path v")
    case (Inl err')
    with "3.prems" have "err' = err" by simp
    with "3.IH"(1) [of err] Inl show ?thesis by auto
  next
    case (Inr s)
    with "3.prems" have "toJSON_walk_all leaf e path vs = Inl err"
      by (auto split: sum.splits)
    with "3.IH"(2) [OF Inr] show ?thesis by auto
  qed
qed

text \<open>
  C6. \<open>toJSON\<close> is a total function, so the walk ends on every value. It fails with the
  serialization error exactly when the reference graph of the value is cyclic, and
  returns a string exactly when the graph is not cyclic. The serialization error can
  be caught.
\<close>

theorem toJSON_rejects_cycles:
  "(toJSON leaf e v = Inl SerializationError \<longleftrightarrow> cyclic e v)
   \<and> ((\<exists>s. toJSON leaf e v = Inr s) \<longleftrightarrow> \<not> cyclic e v)
   \<and> catchable SerializationError"
proof -
  have fails: "cyclic e v" "err = SerializationError" if "toJSON leaf e v = Inl err" for err
    using walk_fails_on_cycle(1) [of leaf e "[]" v err] that
    by (auto simp: toJSON_def cyclic_def)
  have returns: "\<not> cyclic e v" if "toJSON leaf e v = Inr s" for s
    using walk_returns_clean(1) [of leaf e "[]" v s] that
    by (auto simp: toJSON_def cyclic_def)
  show ?thesis
    using fails returns by (cases "toJSON leaf e v") auto
qed

lemma example_cycle_rejected:
  "toJSON example_leaf cyclic_engine (object_value 5) = Inl SerializationError"
  by (simp add: toJSON_def toJSON_walk.simps referent_def object_value_def
      Value_from_rvalue_def Pointer_move_def Pointer_of_def Value_ctor_defs
      sub_values_def cyclic_engine_def)

lemma example_shared_serialized:
  "toJSON example_leaf shared_engine (object_value 8)
     = Inr (''[{'' @ quoted ''ok'' @ '':true},{'' @ quoted ''ok'' @ '':true}]'')"
  by (simp add: toJSON_def toJSON_walk.simps referent_def object_value_def
      Value_from_rvalue_def Pointer_move_def Pointer_of_def
      sub_values_def shared_engine_def compose_text_def example_leaf_def Value_ctor_defs
      quoted_def)

text \<open>
  The object and the array that refer to each other are rejected; the array that
  refers to one object twice is not cyclic and is written out.
\<close>

theorem toJSON_rejects_cycles_witness:
  "toJSON example_leaf cyclic_engine (object_value 5) = Inl SerializationError
   \<and> cyclic cyclic_engine (object_value 5)
   \<and> toJSON example_leaf shared_engine (object_value 8)
       = Inr (''[{'' @ quoted ''ok'' @ '':true},{'' @ quoted ''ok'' @ '':true}]'')
   \<and> \<not> cyclic shared_engine (object_value 8)"
  using toJSON_rejects_cycles [of example_leaf cyclic_engine "object_value 5"]
    toJSON_rejects_cycles [of example_leaf shared_engine "object_value 8"]
    example_cycle_rejected example_shared_serialized
  by blast

end
